theory Spec2Isabelle
  imports Main
begin

section \<open>Productivity tracker: timer, statistics, merge and range aggregation\<close>

text \<open>
  A shallow embedding of the tracker's client script (timer state machine, statistics,
  merge from the remote store) and of the Lambda handler's range aggregation.

  Conventions of the model:
  \<^item> An instant is an \<^typ>\<open>int\<close>: milliseconds since the epoch, the value of
    \<^verbatim>\<open>Date.now()\<close> and of \<^verbatim>\<open>new Date(iso).getTime()\<close>. The ISO strings the
    source stores in \<^verbatim>\<open>startTime\<close> and \<^verbatim>\<open>endTime\<close> are held as these numbers.
  \<^item> A calendar day is an \<^typ>\<open>int\<close>: the number of days since 1970-01-01 (UTC). The
    source holds it as the zero-padded string \<^verbatim>\<open>YYYY-MM-DD\<close> cut from
    \<^verbatim>\<open>toISOString()\<close>; on such strings \<^verbatim>\<open>===\<close> and \<^verbatim>\<open>>=\<close> agree with
    \<open>=\<close> and \<open>\<ge>\<close> on the day numbers.
  \<^item> The clock, the random identifier and the configuration constant a handler reads
    are passed in as an environment record.
  \<^item> The machine's time zone, which \<^verbatim>\<open>getDate\<close>, \<^verbatim>\<open>setDate\<close>, \<^verbatim>\<open>getHours\<close>
    and \<^verbatim>\<open>setHours\<close> read, is passed in as a pair of offset functions.
  \<^item> The DOM, notifications, audio and charts are not part of the model.
\<close>

subsection \<open>Data model\<close>

type_synonym millis = int
type_synonym day = int

record project =
  p_id :: string
  p_name :: string
  p_color :: string

text \<open>
  A session. \<open>s_projectId\<close> is the value of \<^verbatim>\<open>state.activeTimer\<close> at the time the
  session is built, which the source types as a string or \<^verbatim>\<open>null\<close>.
\<close>

record session =
  s_id :: string
  s_projectId :: "string option"
  s_startTime :: millis
  s_endTime :: millis
  s_duration :: int
  s_date :: day
  s_type :: string

text \<open>The snapshot written under the key \<^verbatim>\<open>pt_recovery\<close>.\<close>

record recoveryData =
  r_activeTimer :: "string option"
  r_startTime :: "millis option"
  r_isPaused :: bool
  r_pausedElapsed :: int
  r_pomodoroMode :: bool
  r_pomodoroDuration :: int
  r_lastSeen :: millis

text \<open>
  Which callback \<^verbatim>\<open>state.timerInterval\<close> currently schedules: the one installed by
  \<^verbatim>\<open>startTimer\<close> and \<^verbatim>\<open>resumeTimer\<close> (it ends in \<^verbatim>\<open>pomodoroFinished\<close>), or the
  one installed by \<^verbatim>\<open>startBreak\<close> (it ends in \<^verbatim>\<open>breakFinished\<close>). \<open>None\<close> is a
  cleared interval.
\<close>

datatype ticker = TimerTick | BreakTick

text \<open>
  The global \<^verbatim>\<open>state\<close> object, together with the three local-storage slots the
  modelled functions write (\<^verbatim>\<open>pt_projects\<close>, \<^verbatim>\<open>pt_sessions\<close>, \<^verbatim>\<open>pt_recovery\<close>).
\<close>

record state =
  projects :: "project list"
  sessions :: "session list"
  activeTimer :: "string option"
  startTime :: "millis option"
  elapsedSeconds :: int
  timerInterval :: "ticker option"
  isPaused :: bool
  pausedElapsed :: int
  pomodoroMode :: bool
  pomodoroDuration :: int
  pomodoroRemaining :: int
  pt_projects :: "project list"
  pt_sessions :: "session list"
  pt_recovery :: "recoveryData option"

text \<open>
  What one event handler reads from outside the state: \<^verbatim>\<open>Date.now()\<close>, the result of
  \<^verbatim>\<open>generateId()\<close> (called at most once per handler), and
  \<^verbatim>\<open>CONFIG.MIN_SESSION_DURATION\<close> (\<open>None\<close> when \<^verbatim>\<open>CONFIG\<close> or the field is
  undefined).
\<close>

record env =
  now :: millis
  generateId :: string
  MIN_SESSION_DURATION :: "int option"

subsection \<open>Utilities\<close>

text \<open>JavaScript truthiness of a string-or-null value: \<^verbatim>\<open>null\<close> and \<^verbatim>\<open>''\<close> are falsy.\<close>

definition truthy :: "string option \<Rightarrow> bool" where
  "truthy t = (case t of None \<Rightarrow> False | Some s \<Rightarrow> s \<noteq> [])"

text \<open>\<^verbatim>\<open>null\<close> used as a number is 0.\<close>

definition toNumber :: "int option \<Rightarrow> int" where
  "toNumber v = (case v of None \<Rightarrow> 0 | Some n \<Rightarrow> n)"

text \<open>
  \<^verbatim>\<open>Math.round(a / b)\<close> for integers \<open>a\<close> and \<open>b > 0\<close>: the nearest integer, a tie
  going up.
\<close>

definition roundDiv :: "int \<Rightarrow> int \<Rightarrow> int" where
  "roundDiv a b = (2 * a + b) div (2 * b)"

text \<open>\<^verbatim>\<open>getToday\<close>: the UTC calendar day of the clock.\<close>

definition getToday :: "millis \<Rightarrow> day" where
  "getToday t = t div 86400000"

text \<open>
  The time zone of the machine. \<open>utcOffset z t\<close> is local time minus UTC, in
  milliseconds, at the instant \<open>t\<close>; a \<^verbatim>\<open>Date\<close>'s local fields are those of
  \<open>t + utcOffset z t\<close>. \<open>localOffset z w\<close> is the offset JavaScript applies to turn
  the local wall-clock value \<open>w\<close> back into an instant, \<open>w - localOffset z w\<close>.
  Both are constant where there is no daylight-saving time.
\<close>

record zone =
  utcOffset :: "millis \<Rightarrow> int"
  localOffset :: "millis \<Rightarrow> int"

text \<open>
  \<^verbatim>\<open>getWeekAgo\<close>: \<^verbatim>\<open>d.setDate(d.getDate() - 7)\<close> moves the local wall clock back
  by seven days, and \<^verbatim>\<open>toISOString().split('T')[0]\<close> is the UTC day of the instant
  that wall-clock value stands for.
\<close>

definition getWeekAgo :: "zone \<Rightarrow> millis \<Rightarrow> day" where
  "getWeekAgo z t =
     (let wall = t + utcOffset z t;
          wall' = wall - 7 * 86400000
      in (wall' - localOffset z wall') div 86400000)"

text \<open>\<^verbatim>\<open>(CONFIG.MIN_SESSION_DURATION) || 60\<close>: an undefined or zero setting gives 60.\<close>

definition minDuration :: "int option \<Rightarrow> int" where
  "minDuration cfg = (case cfg of None \<Rightarrow> 60 | Some v \<Rightarrow> if v = 0 then 60 else v)"

subsection \<open>Storage\<close>

definition saveProjects :: "state \<Rightarrow> state" where
  "saveProjects st = st\<lparr>pt_projects := projects st\<rparr>"

definition saveSessions :: "state \<Rightarrow> state" where
  "saveSessions st = st\<lparr>pt_sessions := sessions st\<rparr>"

definition saveRecoveryState :: "env \<Rightarrow> state \<Rightarrow> state" where
  "saveRecoveryState e st =
     (if \<not> truthy (activeTimer st) then st\<lparr>pt_recovery := None\<rparr>
      else st\<lparr>pt_recovery := Some
        \<lparr>r_activeTimer = activeTimer st,
         r_startTime = startTime st,
         r_isPaused = isPaused st,
         r_pausedElapsed = pausedElapsed st,
         r_pomodoroMode = pomodoroMode st,
         r_pomodoroDuration = pomodoroDuration st,
         r_lastSeen = now e\<rparr>\<rparr>)"

subsection \<open>Timer functions\<close>

text \<open>
  \<^verbatim>\<open>pomodoroFinished\<close>, up to the three-second hold: the interval is cleared and the
  session is pushed and saved, with no test of its duration.
\<close>

definition pomodoroFinished :: "env \<Rightarrow> state \<Rightarrow> state" where
  "pomodoroFinished e st =
     saveSessions (st\<lparr>timerInterval := None,
       sessions := sessions st @
         [\<lparr>s_id = generateId e,
           s_projectId = activeTimer st,
           s_startTime = toNumber (startTime st),
           s_endTime = now e,
           s_duration = pomodoroDuration st,
           s_date = getToday (now e),
           s_type = ''pomodoro''\<rparr>]\<rparr>)"

text \<open>The callback \<^verbatim>\<open>pomodoroFinished\<close> schedules with \<^verbatim>\<open>setTimeout(..., 3000)\<close>.\<close>

definition pomodoroFinishedReset :: "state \<Rightarrow> state" where
  "pomodoroFinishedReset st =
     st\<lparr>activeTimer := None, startTime := None, elapsedSeconds := 0,
        pomodoroRemaining := 0\<rparr>"

definition breakFinished :: "env \<Rightarrow> state \<Rightarrow> state" where
  "breakFinished e st =
     saveSessions (st\<lparr>timerInterval := None,
       sessions := sessions st @
         [\<lparr>s_id = generateId e,
           s_projectId = Some ''break'',
           s_startTime = toNumber (startTime st),
           s_endTime = now e,
           s_duration = pomodoroDuration st,
           s_date = getToday (now e),
           s_type = ''break''\<rparr>]\<rparr>)"

text \<open>
  The callback \<^verbatim>\<open>breakFinished\<close> schedules with \<^verbatim>\<open>setTimeout(..., 3000)\<close>; it puts
  the pomodoro duration back to 25 minutes.
\<close>

definition breakFinishedReset :: "state \<Rightarrow> state" where
  "breakFinishedReset st =
     st\<lparr>activeTimer := None, startTime := None, elapsedSeconds := 0,
        pomodoroRemaining := 0, pomodoroDuration := 25 * 60\<rparr>"

definition stopTimer :: "bool \<Rightarrow> env \<Rightarrow> state \<Rightarrow> state" where
  "stopTimer save e st =
     (if \<not> truthy (activeTimer st) then st
      else
        let st1 = st\<lparr>pt_recovery := None, timerInterval := None\<rparr>;
            st2 = (if save \<and> elapsedSeconds st1 \<ge> minDuration (MIN_SESSION_DURATION e)
                   then saveSessions (st1\<lparr>sessions := sessions st1 @
                          [\<lparr>s_id = generateId e,
                            s_projectId = activeTimer st1,
                            s_startTime = toNumber (startTime st1),
                            s_endTime = now e,
                            s_duration = elapsedSeconds st1,
                            s_date = getToday (now e),
                            s_type = (if activeTimer st1 = Some ''break''
                                      then ''break'' else ''work'')\<rparr>]\<rparr>)
                   else st1)
        in st2\<lparr>activeTimer := None, startTime := None, elapsedSeconds := 0,
               isPaused := False, pausedElapsed := 0, pomodoroRemaining := 0\<rparr>)"

definition pauseTimer :: "state \<Rightarrow> state" where
  "pauseTimer st =
     (if \<not> truthy (activeTimer st) \<or> isPaused st then st
      else st\<lparr>timerInterval := None, isPaused := True,
              pausedElapsed := elapsedSeconds st\<rparr>)"

definition resumeTimer :: "env \<Rightarrow> state \<Rightarrow> state" where
  "resumeTimer e st =
     (if \<not> truthy (activeTimer st) \<or> \<not> isPaused st then st
      else saveRecoveryState e
             (st\<lparr>isPaused := False,
                 startTime := Some (now e - pausedElapsed st * 1000),
                 timerInterval := Some TimerTick\<rparr>))"

definition startTimer :: "string \<Rightarrow> env \<Rightarrow> state \<Rightarrow> state" where
  "startTimer projectId e st =
     (if isPaused st \<and> activeTimer st = Some projectId then resumeTimer e st
      else
        let st1 = (if truthy (activeTimer st) then stopTimer False e st else st);
            st2 = st1\<lparr>activeTimer := Some projectId, startTime := Some (now e),
                      elapsedSeconds := 0, isPaused := False, pausedElapsed := 0\<rparr>;
            st3 = (if pomodoroMode st2 \<and> pomodoroDuration st2 > 0
                   then st2\<lparr>pomodoroRemaining := pomodoroDuration st2\<rparr> else st2)
        in saveRecoveryState e (st3\<lparr>timerInterval := Some TimerTick\<rparr>))"

definition startBreak :: "int \<Rightarrow> env \<Rightarrow> state \<Rightarrow> state" where
  "startBreak dur e st =
     (let st1 = (if truthy (activeTimer st)
                 then stopTimer (activeTimer st \<noteq> Some ''break'') e st else st)
      in st1\<lparr>activeTimer := Some ''break'', startTime := Some (now e),
             elapsedSeconds := 0, isPaused := False, pausedElapsed := 0,
             pomodoroMode := True, pomodoroDuration := dur, pomodoroRemaining := dur,
             timerInterval := Some BreakTick\<rparr>)"

text \<open>
  One firing of the scheduled interval callback. The callback of \<^verbatim>\<open>startTimer\<close> and
  \<^verbatim>\<open>resumeTimer\<close> is the same code; the callback of \<^verbatim>\<open>startBreak\<close> counts down
  without testing \<^verbatim>\<open>pomodoroMode\<close> and writes no recovery snapshot. With no interval
  scheduled nothing fires.
\<close>

definition tick :: "env \<Rightarrow> state \<Rightarrow> state" where
  "tick e st =
     (case timerInterval st of
        None \<Rightarrow> st
      | Some TimerTick \<Rightarrow>
          (let st1 = st\<lparr>elapsedSeconds := (now e - toNumber (startTime st)) div 1000\<rparr>;
               st2 = (if pomodoroMode st1 \<and> pomodoroDuration st1 > 0
                      then st1\<lparr>pomodoroRemaining := pomodoroDuration st1 - elapsedSeconds st1\<rparr>
                      else st1)
           in if pomodoroMode st1 \<and> pomodoroDuration st1 > 0 \<and> pomodoroRemaining st2 \<le> 0
              then pomodoroFinished e st2
              else if elapsedSeconds st2 mod 2 = 0 then saveRecoveryState e st2 else st2)
      | Some BreakTick \<Rightarrow>
          (let st1 = st\<lparr>elapsedSeconds := (now e - toNumber (startTime st)) div 1000\<rparr>;
               st2 = st1\<lparr>pomodoroRemaining := pomodoroDuration st1 - elapsedSeconds st1\<rparr>
           in if pomodoroRemaining st2 \<le> 0 then breakFinished e st2 else st2))"

subsection \<open>Statistics\<close>

text \<open>
  \<^verbatim>\<open>getMinutesInHour\<close>: the whole minutes of the session inside the window
  \<open>[hourStart, hourEnd)\<close>, rounded to the nearest minute and capped at 60.
\<close>

definition getMinutesInHour :: "session \<Rightarrow> millis \<Rightarrow> millis \<Rightarrow> int" where
  "getMinutesInHour s hourStart hourEnd =
     (if s_endTime s \<le> hourStart \<or> s_startTime s \<ge> hourEnd then 0
      else
        let overlapStart = max (s_startTime s) hourStart;
            overlapEnd = min (s_endTime s) hourEnd
        in min 60 (roundDiv (overlapEnd - overlapStart) 60000))"

text \<open>
  The results of \<^verbatim>\<open>getMinutesInHour\<close> for one session added up over the \<open>n\<close>
  consecutive one-hour windows that start at \<open>h0\<close>, one call per window as
  \<^verbatim>\<open>getStats\<close> makes them.
\<close>

primrec minutesOverHours :: "session \<Rightarrow> millis \<Rightarrow> nat \<Rightarrow> int" where
  "minutesOverHours s h0 0 = 0"
| "minutesOverHours s h0 (Suc n) =
     minutesOverHours s h0 n +
     getMinutesInHour s (h0 + int n * 3600000) (h0 + int n * 3600000 + 3600000)"





subsection \<open>Project management\<close>

definition deleteProject :: "string \<Rightarrow> env \<Rightarrow> state \<Rightarrow> state" where
  "deleteProject i e st =
     (let st1 = (if activeTimer st = Some i then stopTimer False e st else st);
          st2 = st1\<lparr>projects := filter (\<lambda>p. p_id p \<noteq> i) (projects st1)\<rparr>;
          st3 = st2\<lparr>sessions := filter (\<lambda>s. s_projectId s \<noteq> Some i) (sessions st2)\<rparr>
      in saveSessions (saveProjects st3))"

subsection \<open>Sync client\<close>

text \<open>
  The daily document as the client reads it. A field the JSON does not carry is
  \<open>None\<close> (the source tests \<^verbatim>\<open>remoteData.projects\<close> and \<^verbatim>\<open>remoteData.sessions\<close>
  for truthiness before use).
\<close>

record dailyDoc =
  d_date :: day
  d_sessions :: "session list option"
  d_projects :: "project list option"

text \<open>
  What \<^verbatim>\<open>fetch\<close> followed by \<^verbatim>\<open>response.json()\<close> can give: a rejected request, or a
  response with its status and its body (\<open>None\<close> when the body is not valid JSON, so
  that \<^verbatim>\<open>response.json()\<close> throws).
\<close>

datatype fetchResult = NetworkError | Response int "dailyDoc option"

text \<open>
  \<^verbatim>\<open>loadFromAWS\<close>: the returned value, \<open>None\<close> for \<^verbatim>\<open>null\<close>. The first argument is
  \<^verbatim>\<open>API_URL\<close>; \<^verbatim>\<open>response.ok\<close> is a status from 200 to 299.
\<close>

definition loadFromAWS :: "string \<Rightarrow> fetchResult \<Rightarrow> dailyDoc option" where
  "loadFromAWS API_URL r =
     (if API_URL = [] then None
      else case r of
        NetworkError \<Rightarrow> None
      | Response status body \<Rightarrow>
          if status = 404 then None
          else if \<not> (200 \<le> status \<and> status \<le> 299) then None
          else body)"

text \<open>\<^verbatim>\<open>Array.prototype.findIndex\<close>, with \<open>None\<close> for \<open>-1\<close>.\<close>

fun findIndex :: "('a \<Rightarrow> bool) \<Rightarrow> 'a list \<Rightarrow> nat option" where
  "findIndex P [] = None"
| "findIndex P (x # xs) = (if P x then Some 0 else map_option Suc (findIndex P xs))"

text \<open>
  The body of the \<^verbatim>\<open>forEach\<close> over the remote projects, on the pair of
  \<^verbatim>\<open>state.projects\<close> and \<^verbatim>\<open>projectsChanged\<close>.
\<close>

definition mergeProject :: "project \<Rightarrow> project list \<times> bool \<Rightarrow> project list \<times> bool" where
  "mergeProject remoteProj acc =
     (case acc of (ps, projectsChanged) \<Rightarrow>
        (case findIndex (\<lambda>p. p_id p = p_id remoteProj) ps of
           None \<Rightarrow> (ps @ [remoteProj], True)
         | Some localIndex \<Rightarrow>
             (let localProj = ps ! localIndex
              in if p_name localProj \<noteq> p_name remoteProj \<or> p_color localProj \<noteq> p_color remoteProj
                 then (ps[localIndex := remoteProj], True)
                 else (ps, projectsChanged))))"

text \<open>
  The body of the \<^verbatim>\<open>forEach\<close> over the remote sessions, on the pair of
  \<^verbatim>\<open>state.sessions\<close> and \<^verbatim>\<open>added\<close>.
\<close>

definition mergeSession :: "session \<Rightarrow> session list \<times> nat \<Rightarrow> session list \<times> nat" where
  "mergeSession remoteSess acc =
     (case acc of (ss, added) \<Rightarrow>
        (case find (\<lambda>s. s_id s = s_id remoteSess) ss of
           None \<Rightarrow> (ss @ [remoteSess], added + 1)
         | Some exists \<Rightarrow> (ss, added)))"

text \<open>\<^verbatim>\<open>mergeFromAWS\<close>, given what \<^verbatim>\<open>loadFromAWS\<close> returned.\<close>

definition mergeFromAWS :: "dailyDoc option \<Rightarrow> state \<Rightarrow> state" where
  "mergeFromAWS remoteData st =
     (case remoteData of
        None \<Rightarrow> st
      | Some doc \<Rightarrow>
          (let st1 = (case d_projects doc of
                        None \<Rightarrow> st
                      | Some remoteProjects \<Rightarrow>
                          (let r = fold mergeProject remoteProjects (projects st, False);
                               st' = st\<lparr>projects := fst r\<rparr>
                           in if snd r then saveProjects st' else st'))
           in (case d_sessions doc of
                 None \<Rightarrow> st1
               | Some remoteSessions \<Rightarrow>
                   (let r = fold mergeSession remoteSessions (sessions st1, 0);
                        st' = st1\<lparr>sessions := fst r\<rparr>
                    in if snd r > 0 then saveSessions st' else st'))))"

subsection \<open>Remote store adapter: range aggregation\<close>

text \<open>
  One entry of the bucket listing. \<open>o_date\<close> is the date the regular expression
  captures from the key (\<open>None\<close> when the key does not match); \<open>o_body\<close> is the result
  of \<^verbatim>\<open>GetObjectCommand\<close> followed by \<^verbatim>\<open>JSON.parse\<close> (\<open>None\<close> when either throws).
\<close>

record s3Object =
  o_date :: "day option"
  o_body :: "dailyDoc option"

record rangeResponse =
  rr_from :: day
  rr_to :: day
  rr_sessions :: "session list"
  rr_projects :: "project list"
  filesLoaded :: int

text \<open>
  \<^verbatim>\<open>projects.set(p.id, p)\<close> on a JavaScript \<^verbatim>\<open>Map\<close>, held as the list of its values
  in insertion order: a known key keeps its place and takes the new value.
\<close>

fun mapSet :: "project \<Rightarrow> project list \<Rightarrow> project list" where
  "mapSet p [] = [p]"
| "mapSet p (q # qs) = (if p_id q = p_id p then p # qs else q # mapSet p qs)"

text \<open>The body of the loop over the files: the \<^verbatim>\<open>catch\<close> leaves both collections as
  they are.\<close>

definition loadFile :: "s3Object \<Rightarrow> session list \<times> project list \<Rightarrow> session list \<times> project list" where
  "loadFile f acc =
     (case acc of (ss, ps) \<Rightarrow>
        (case o_body f of
           None \<Rightarrow> (ss, ps)
         | Some data \<Rightarrow>
             ((case d_sessions data of None \<Rightarrow> ss | Some xs \<Rightarrow> ss @ xs),
              (case d_projects data of None \<Rightarrow> ps | Some qs \<Rightarrow> fold mapSet qs ps))))"

definition handleGetDateRange :: "day \<Rightarrow> day \<Rightarrow> s3Object list \<Rightarrow> rangeResponse" where
  "handleGetDateRange from to contents =
     (let files = filter (\<lambda>f. case o_date f of
                                 None \<Rightarrow> False
                               | Some fileDate \<Rightarrow> fileDate \<ge> from \<and> fileDate \<le> to) contents;
          r = fold loadFile files ([], [])
      in \<lparr>rr_from = from, rr_to = to, rr_sessions = fst r, rr_projects = snd r,
          filesLoaded = int (length files)\<rparr>)"

subsection \<open>Reference quantities and auxiliary functions of the proofs\<close>

text \<open>
  The exact overlap, in milliseconds, of the session's span
  \<open>[s_startTime, s_endTime)\<close> with the window \<open>[a, b)\<close>: the quantity the
  specification calls \<open>overlapSeconds\<close>, before any rounding.
\<close>

definition overlapMillis :: "session \<Rightarrow> millis \<Rightarrow> millis \<Rightarrow> int" where
  "overlapMillis s a b = max 0 (min (s_endTime s) b - max (s_startTime s) a)"



text \<open>A break of \<open>d\<close> seconds is the active timer.\<close>

definition runningBreak :: "int \<Rightarrow> state \<Rightarrow> bool" where
  "runningBreak d st \<longleftrightarrow>
     activeTimer st = Some ''break'' \<and> pomodoroMode st \<and> pomodoroDuration st = d"

text \<open>The two halves of \<^verbatim>\<open>mergeFromAWS\<close>, named for the proofs.\<close>

definition mergeProjectsStep :: "dailyDoc \<Rightarrow> state \<Rightarrow> state" where
  "mergeProjectsStep doc st =
     (case d_projects doc of
        None \<Rightarrow> st
      | Some remoteProjects \<Rightarrow>
          (let r = fold mergeProject remoteProjects (projects st, False);
               st' = st\<lparr>projects := fst r\<rparr>
           in if snd r then saveProjects st' else st'))"

definition mergeSessionsStep :: "dailyDoc \<Rightarrow> state \<Rightarrow> state" where
  "mergeSessionsStep doc st =
     (case d_sessions doc of
        None \<Rightarrow> st
      | Some remoteSessions \<Rightarrow>
          (let r = fold mergeSession remoteSessions (sessions st, 0);
               st' = st\<lparr>sessions := fst r\<rparr>
           in if snd r > 0 then saveSessions st' else st'))"

subsection \<open>Concrete inputs\<close>

text \<open>
  The instants used below lie on 2025-01-15 (day 20103):
  1736931600000 is 09:00:00 UTC, 1736935200000 is 10:00:00 UTC and
  1736942400000 is 12:00:00 UTC.
\<close>

definition DEFAULT_PROJECTS :: "project list" where
  "DEFAULT_PROJECTS =
     [\<lparr>p_id = ''proj1'', p_name = ''Work Project'', p_color = ''#00ff88''\<rparr>,
      \<lparr>p_id = ''proj2'', p_name = ''Side Project'', p_color = ''#ff6b35''\<rparr>,
      \<lparr>p_id = ''proj3'', p_name = ''Learning'', p_color = ''#00d4ff''\<rparr>]"

text \<open>The \<^verbatim>\<open>state\<close> literal of the script after \<^verbatim>\<open>loadData\<close> on an empty storage.\<close>

definition initialState :: state where
  "initialState =
     \<lparr>projects = DEFAULT_PROJECTS, sessions = [], activeTimer = None, startTime = None,
      elapsedSeconds = 0, timerInterval = None, isPaused = False, pausedElapsed = 0,
      pomodoroMode = True, pomodoroDuration = 25 * 60, pomodoroRemaining = 0,
      pt_projects = [], pt_sessions = [], pt_recovery = None\<rparr>"

text \<open>The environment at instant \<open>t\<close>, with the example configuration's minimum of 60.\<close>

definition envAt :: "millis \<Rightarrow> env" where
  "envAt t = \<lparr>now = t, generateId = ''k3x9a1b2c'', MIN_SESSION_DURATION = Some 60\<rparr>"

text \<open>The environment at instant \<open>t\<close> with the configured minimum \<open>cfg\<close>.\<close>

definition envWith :: "int option \<Rightarrow> millis \<Rightarrow> env" where
  "envWith cfg t = \<lparr>now = t, generateId = ''k3x9a1b2c'', MIN_SESSION_DURATION = cfg\<rparr>"


text \<open>
  New York around the end of daylight-saving time in 2025: four hours behind UTC until
  2025-11-02 06:00 UTC (02:00 on the local wall clock), five hours behind from then on.
\<close>

definition newYorkAutumn2025 :: zone where
  "newYorkAutumn2025 =
     \<lparr>utcOffset = (\<lambda>t. if t < 1762063200000 then - 14400000 else - 18000000),
      localOffset = (\<lambda>w. if w < 1762048800000 then - 14400000 else - 18000000)\<rparr>"

text \<open>Free mode (the button with duration 0) selected.\<close>

definition freeModeState :: state where
  "freeModeState = initialState\<lparr>pomodoroMode := False, pomodoroDuration := 0\<rparr>"

text \<open>A timer on \<open>proj1\<close> started at 10:00:00 and ticked at 10:01:30.\<close>

definition runningWork :: state where
  "runningWork =
     tick (envAt 1736935290000) (startTimer ''proj1'' (envAt 1736935200000) freeModeState)"

text \<open>A timer on \<open>proj1\<close> started at 10:00:00 and ticked at 10:00:30.\<close>

definition runningShort :: state where
  "runningShort =
     tick (envAt 1736935230000) (startTimer ''proj1'' (envAt 1736935200000) freeModeState)"

text \<open>A pomodoro of 30 seconds on \<open>proj1\<close> started at 10:00:00.\<close>

definition shortPomodoro :: state where
  "shortPomodoro =
     startTimer ''proj1'' (envAt 1736935200000) (initialState\<lparr>pomodoroDuration := 30\<rparr>)"

text \<open>A break of 300 seconds started at 10:00:00 and ticked at 10:01:00.\<close>

definition tickedBreak :: state where
  "tickedBreak = tick (envAt 1736935260000) (startBreak 300 (envAt 1736935200000) initialState)"

text \<open>That break paused, and resumed at 10:02:00.\<close>

definition resumedBreak :: state where
  "resumedBreak = resumeTimer (envAt 1736935320000) (pauseTimer tickedBreak)"

text \<open>
  A session from 09:59:30.000 to 10:00:30.000 with a recorded duration of 60 seconds.
\<close>

definition boundarySession :: session where
  "boundarySession =
     \<lparr>s_id = ''a1b2c3d4e'', s_projectId = Some ''proj1'',
      s_startTime = 1736935170000, s_endTime = 1736935230000, s_duration = 60,
      s_date = 20103, s_type = ''work''\<rparr>"


text \<open>A remote document that renames \<open>proj1\<close>, adds \<open>proj4\<close> and carries one session.\<close>

definition remoteDoc :: dailyDoc where
  "remoteDoc =
     \<lparr>d_date = 20103,
      d_sessions = Some [boundarySession],
      d_projects = Some
        [\<lparr>p_id = ''proj1'', p_name = ''Client Work'', p_color = ''#00ff88''\<rparr>,
         \<lparr>p_id = ''proj4'', p_name = ''Reading'', p_color = ''#ffffff''\<rparr>]\<rparr>"

text \<open>The document stored for day \<open>d\<close>: one session of 600 seconds and one project.\<close>

definition docOf :: "day \<Rightarrow> dailyDoc" where
  "docOf d =
     \<lparr>d_date = d,
      d_sessions = Some [\<lparr>s_id = ''s'', s_projectId = Some ''proj1'',
         s_startTime = d * 86400000, s_endTime = d * 86400000 + 600000, s_duration = 600,
         s_date = d, s_type = ''work''\<rparr>],
      d_projects = Some [\<lparr>p_id = ''proj1'', p_name = ''Work Project'', p_color = ''#00ff88''\<rparr>]\<rparr>"

text \<open>
  Five stored daily documents, 2025-01-11 to 2025-01-15; the third does not parse.
\<close>

definition fiveFiles :: "s3Object list" where
  "fiveFiles =
     [\<lparr>o_date = Some 20099, o_body = Some (docOf 20099)\<rparr>,
      \<lparr>o_date = Some 20100, o_body = Some (docOf 20100)\<rparr>,
      \<lparr>o_date = Some 20101, o_body = None\<rparr>,
      \<lparr>o_date = Some 20102, o_body = Some (docOf 20102)\<rparr>,
      \<lparr>o_date = Some 20103, o_body = Some (docOf 20103)\<rparr>]"

section \<open>Properties\<close>

lemmas example_defs = initialState_def freeModeState_def runningWork_def shortPomodoro_def
  tickedBreak_def resumedBreak_def envAt_def DEFAULT_PROJECTS_def envWith_def runningShort_def

lemmas timer_defs = tick_def startTimer_def stopTimer_def pauseTimer_def resumeTimer_def
  startBreak_def pomodoroFinished_def breakFinished_def saveRecoveryState_def
  saveSessions_def saveProjects_def truthy_def toNumber_def minDuration_def getToday_def
  pomodoroFinishedReset_def breakFinishedReset_def

subsection \<open>Hour windows\<close>

lemma roundDiv_near: "\<bar>60000 * roundDiv x 60000 - x\<bar> \<le> 30000"
proof -
  define q where "q = (2 * x + 60000) div 120000"
  define r where "r = (2 * x + 60000) mod 120000"
  have "2 * x + 60000 = 120000 * q + r" unfolding q_def r_def by simp
  moreover have "0 \<le> r" "r < 120000" unfolding r_def by simp_all
  ultimately have "\<bar>60000 * q - x\<bar> \<le> 30000" by linarith
  then show ?thesis unfolding roundDiv_def q_def by simp
qed

lemma roundDiv_mono: "x \<le> y \<Longrightarrow> roundDiv x 60000 \<le> roundDiv y 60000"
  unfolding roundDiv_def by (simp add: zdiv_mono1)

lemma roundDiv_hour: "roundDiv 3600000 60000 = 60"
  unfolding roundDiv_def by simp

lemma roundDiv_nonneg: "0 \<le> x \<Longrightarrow> 0 \<le> roundDiv x 60000"
  unfolding roundDiv_def by simp

lemma window_near:
  assumes se: "s_startTime s \<le> s_endTime s"
  shows "\<bar>60000 * getMinutesInHour s a (a + 3600000) - overlapMillis s a (a + 3600000)\<bar> \<le> 30000"
proof (cases "s_endTime s \<le> a \<or> s_startTime s \<ge> a + 3600000")
  case True
  then show ?thesis
    using se unfolding getMinutesInHour_def overlapMillis_def by (auto simp: min_def max_def)
next
  case False
  define v where "v = min (s_endTime s) (a + 3600000) - max (s_startTime s) a"
  have le: "v \<le> 3600000" unfolding v_def by (simp add: min_def max_def)
  have "roundDiv v 60000 \<le> 60" using roundDiv_mono[OF le] roundDiv_hour by simp
  then have g: "getMinutesInHour s a (a + 3600000) = roundDiv v 60000"
    using False unfolding getMinutesInHour_def v_def Let_def by simp
  have n: "\<bar>60000 * roundDiv v 60000 - v\<bar> \<le> 30000" by (rule roundDiv_near)
  have "0 \<le> v" using False se unfolding v_def by (simp add: min_def max_def)
  then have "overlapMillis s a (a + 3600000) = v" unfolding overlapMillis_def v_def by simp
  with g n show ?thesis by simp
qed

lemma window_range:
  assumes se: "s_startTime s \<le> s_endTime s"
  shows "0 \<le> getMinutesInHour s a (a + 3600000) \<and> getMinutesInHour s a (a + 3600000) \<le> 60"
proof -
  have "0 \<le> min (s_endTime s) (a + 3600000) - max (s_startTime s) a"
    if "\<not> (s_endTime s \<le> a \<or> s_startTime s \<ge> a + 3600000)"
    using that se by (simp add: min_def max_def)
  then show ?thesis
    unfolding getMinutesInHour_def Let_def by (simp add: roundDiv_nonneg)
qed

lemma window_disjoint:
  "s_endTime s \<le> a \<or> b \<le> s_startTime s \<Longrightarrow> getMinutesInHour s a b = 0"
  unfolding getMinutesInHour_def by auto

lemma overlap_add:
  "a \<le> b \<Longrightarrow> b \<le> c \<Longrightarrow> s_startTime s \<le> s_endTime s \<Longrightarrow>
   overlapMillis s a b + overlapMillis s b c = overlapMillis s a c"
  unfolding overlapMillis_def by (simp add: min_def max_def)

lemma hours_near:
  "s_startTime s \<le> s_endTime s \<Longrightarrow>
   \<bar>60000 * minutesOverHours s h0 n - overlapMillis s h0 (h0 + int n * 3600000)\<bar> \<le> 30000 * int n"
proof (induction n)
  case 0
  then show ?case by (simp add: overlapMillis_def min_def max_def)
next
  case (Suc n)
  have w: "\<bar>60000 * getMinutesInHour s (h0 + int n * 3600000) (h0 + int n * 3600000 + 3600000)
        - overlapMillis s (h0 + int n * 3600000) (h0 + int n * 3600000 + 3600000)\<bar> \<le> 30000"
    by (rule window_near[OF Suc.prems])
  have a: "overlapMillis s h0 (h0 + int n * 3600000)
       + overlapMillis s (h0 + int n * 3600000) (h0 + int n * 3600000 + 3600000)
       = overlapMillis s h0 (h0 + int n * 3600000 + 3600000)"
    by (rule overlap_add) (use Suc.prems in simp_all)
  define m where "m = minutesOverHours s h0 n"
  define g where "g = getMinutesInHour s (h0 + int n * 3600000) (h0 + int n * 3600000 + 3600000)"
  define o1 where "o1 = overlapMillis s h0 (h0 + int n * 3600000)"
  define o2 where "o2 = overlapMillis s (h0 + int n * 3600000) (h0 + int n * 3600000 + 3600000)"
  define k where "k = int n"
  have e: "h0 + int (Suc n) * 3600000 = h0 + int n * 3600000 + 3600000" by simp
  have ih: "\<bar>60000 * m - o1\<bar> \<le> 30000 * k"
    using Suc.IH[OF Suc.prems] unfolding m_def o1_def k_def .
  have w': "\<bar>60000 * g - o2\<bar> \<le> 30000" using w unfolding g_def o2_def .
  have "\<bar>60000 * (m + g) - (o1 + o2)\<bar> \<le> 30000 * (k + 1)"
    using ih w' unfolding abs_le_iff by (simp add: algebra_simps)
  then show ?case
    unfolding e minutesOverHours.simps a[symmetric] m_def g_def o1_def o2_def k_def by simp
qed

text \<open>
  C1, as the code has it. For a session whose end is not before its start and every
  one-hour window, \<open>getMinutesInHour\<close> is the overlap of the session with the window
  rounded to the nearest whole minute: it lies between 0 and 60, is 0 when the session
  is outside the window, and is within 30 seconds of the exact overlap. Summed over
  \<open>n\<close> consecutive hour windows that cover the session, the results differ from
  \<open>s_endTime - s_startTime\<close> by at most 30 seconds per window; the sum is not exactly
  the session's length.
\<close>

theorem getMinutesInHour_sum_within_rounding:
  assumes "s_startTime s \<le> s_endTime s"
    and "h0 \<le> s_startTime s" and "s_endTime s \<le> h0 + int n * 3600000"
  shows "(\<forall>a. 0 \<le> getMinutesInHour s a (a + 3600000)
            \<and> getMinutesInHour s a (a + 3600000) \<le> 60
            \<and> (s_endTime s \<le> a \<or> a + 3600000 \<le> s_startTime s
                 \<longrightarrow> getMinutesInHour s a (a + 3600000) = 0)
            \<and> \<bar>60000 * getMinutesInHour s a (a + 3600000)
                 - overlapMillis s a (a + 3600000)\<bar> \<le> 30000)
       \<and> \<bar>60000 * minutesOverHours s h0 n - (s_endTime s - s_startTime s)\<bar> \<le> 30000 * int n"
proof -
  have "overlapMillis s h0 (h0 + int n * 3600000) = s_endTime s - s_startTime s"
    using assms unfolding overlapMillis_def by (simp add: min_def max_def)
  with hours_near[OF assms(1), of h0 n] window_near[OF assms(1)] window_range[OF assms(1)]
    window_disjoint[of s]
  show ?thesis by simp
qed

text \<open>
  Witness for C1: the session from 09:59:30 to 10:00:30 over the two windows from 09:00;
  the two calls give 1 minute each.
\<close>

theorem getMinutesInHour_sum_within_rounding_witness:
  "s_startTime boundarySession \<le> s_endTime boundarySession
   \<and> 1736931600000 \<le> s_startTime boundarySession
   \<and> s_endTime boundarySession \<le> 1736931600000 + int 2 * 3600000
   \<and> minutesOverHours boundarySession 1736931600000 2 = 2
   \<and> \<bar>60000 * minutesOverHours boundarySession 1736931600000 2
        - (s_endTime boundarySession - s_startTime boundarySession)\<bar> \<le> 30000 * int 2"
  using getMinutesInHour_sum_within_rounding[of boundarySession 1736931600000 2]
  by (simp add: boundarySession_def getMinutesInHour_def roundDiv_def numeral_2_eq_2)

text \<open>
  Counterexample to C1 as stated: the session from 09:59:30 to 10:00:30 lasts 60
  seconds; the window from 09:00 and the window from 10:00 each give 1 minute, so the
  sum over the windows it touches is 120 seconds, more than its duration.
\<close>

theorem getMinutesInHour_sum_exceeds_duration:
  "getMinutesInHour boundarySession 1736931600000 1736935200000 = 1
   \<and> getMinutesInHour boundarySession 1736935200000 1736938800000 = 1
   \<and> s_duration boundarySession = 60
   \<and> s_endTime boundarySession - s_startTime boundarySession = 60 * 1000
   \<and> 60 * (getMinutesInHour boundarySession 1736931600000 1736935200000
          + getMinutesInHour boundarySession 1736935200000 1736938800000)
       > s_duration boundarySession"
  by (simp add: boundarySession_def getMinutesInHour_def roundDiv_def)

subsection \<open>Timer\<close>




text \<open>
  C3. When the scheduled callback fires with the countdown at or below zero (for the
  callback of \<open>startTimer\<close> and \<open>resumeTimer\<close>, with pomodoro mode on and a positive
  duration), exactly one session is appended and stored, whatever the configured
  minimum and however short the countdown; its duration is the configured countdown
  duration, and the interval is cleared.
\<close>

theorem countdown_completion_unconditional:
  assumes "timerInterval st = Some tk"
    and "tk = TimerTick \<longrightarrow> pomodoroMode st \<and> pomodoroDuration st > 0"
    and "pomodoroDuration st - (now e - toNumber (startTime st)) div 1000 \<le> 0"
  shows "\<exists>x. sessions (tick e st) = sessions st @ [x]
            \<and> pt_sessions (tick e st) = sessions st @ [x]
            \<and> s_duration x = pomodoroDuration st
            \<and> s_type x = (case tk of TimerTick \<Rightarrow> ''pomodoro'' | BreakTick \<Rightarrow> ''break'')
            \<and> timerInterval (tick e st) = None"
  using assms
  by (cases tk)
    (simp_all add: tick_def pomodoroFinished_def breakFinished_def saveSessions_def Let_def)

text \<open>
  Witness for C3: a pomodoro of 30 seconds, below the minimum of 60, completes at
  10:00:30 and is recorded.
\<close>

theorem countdown_completion_unconditional_witness:
  "timerInterval shortPomodoro = Some TimerTick
   \<and> pomodoroMode shortPomodoro \<and> pomodoroDuration shortPomodoro = 30
   \<and> pomodoroDuration shortPomodoro < minDuration (MIN_SESSION_DURATION (envAt 1736935230000))
   \<and> map s_duration (sessions (tick (envAt 1736935230000) shortPomodoro)) = [30]
   \<and> map s_type (pt_sessions (tick (envAt 1736935230000) shortPomodoro)) = [''pomodoro'']"
  using countdown_completion_unconditional[of shortPomodoro TimerTick "envAt 1736935230000"]
  by (auto simp: example_defs timer_defs Let_def)

text \<open>
  C8, at the failing input. A break of 300 seconds is started at 10:00:00, paused at
  10:01:00 and resumed at 10:02:00. \<open>resumeTimer\<close> installs the callback that ends in
  \<open>pomodoroFinished\<close>, so when the countdown reaches zero at 10:06:00 the session
  recorded for the break has projectId \<open>break\<close> but type \<open>pomodoro\<close>.
\<close>

theorem resumed_break_recorded_as_pomodoro:
  "activeTimer resumedBreak = Some ''break''
   \<and> timerInterval resumedBreak = Some TimerTick
   \<and> map s_projectId (sessions (tick (envAt 1736935560000) resumedBreak)) = [Some ''break'']
   \<and> map s_type (sessions (tick (envAt 1736935560000) resumedBreak)) = [''pomodoro'']
   \<and> map s_duration (sessions (tick (envAt 1736935560000) resumedBreak)) = [300]"
  by (simp add: example_defs timer_defs Let_def)

text \<open>
  The same break left running completes through \<open>breakFinished\<close> and is recorded with
  type \<open>break\<close>.
\<close>

lemma unpaused_break_recorded_as_break:
  "map s_type (sessions (tick (envAt 1736935500000)
      (startBreak 300 (envAt 1736935200000) initialState))) = [''break'']
   \<and> map s_projectId (sessions (tick (envAt 1736935500000)
      (startBreak 300 (envAt 1736935200000) initialState))) = [Some ''break'']"
  by (simp add: example_defs timer_defs Let_def)

text \<open>
  C9. When the active timer runs on project \<open>i\<close> (a non-empty identifier),
  \<open>deleteProject i\<close> first stops it with \<open>save = false\<close>: that stop records no
  session, whatever the elapsed time, and leaves no active timer. The result is that
  of deleting after the stop: no active timer, the project list without \<open>i\<close>, and
  the session log reduced to the earlier sessions that do not reference \<open>i\<close>, both
  stored.
\<close>

theorem deleteProject_discards_running_timer:
  assumes "activeTimer st = Some i" and "i \<noteq> []"
  shows "sessions (stopTimer False e st) = sessions st
       \<and> pt_sessions (stopTimer False e st) = pt_sessions st
       \<and> activeTimer (stopTimer False e st) = None
       \<and> deleteProject i e st = deleteProject i e (stopTimer False e st)
       \<and> activeTimer (deleteProject i e st) = None
       \<and> timerInterval (deleteProject i e st) = None
       \<and> sessions (deleteProject i e st) = filter (\<lambda>s. s_projectId s \<noteq> Some i) (sessions st)
       \<and> projects (deleteProject i e st) = filter (\<lambda>p. p_id p \<noteq> i) (projects st)
       \<and> pt_sessions (deleteProject i e st) = sessions (deleteProject i e st)
       \<and> pt_projects (deleteProject i e st) = projects (deleteProject i e st)"
  using assms
  by (simp add: deleteProject_def stopTimer_def truthy_def saveSessions_def saveProjects_def
      Let_def)

text \<open>
  Witness for C9: \<open>proj1\<close> is deleted while its timer has run for 90 seconds, more
  than the minimum; no session is recorded.
\<close>

theorem deleteProject_discards_running_timer_witness:
  "activeTimer runningWork = Some ''proj1'' \<and> ''proj1'' \<noteq> []
   \<and> elapsedSeconds runningWork = 90
   \<and> sessions (deleteProject ''proj1'' (envAt 1736935290500) runningWork) = []
   \<and> map p_id (projects (deleteProject ''proj1'' (envAt 1736935290500) runningWork))
       = [''proj2'', ''proj3'']
   \<and> activeTimer (deleteProject ''proj1'' (envAt 1736935290500) runningWork) = None"
  using deleteProject_discards_running_timer[of runningWork "''proj1''" "envAt 1736935290500"]
  by (simp add: example_defs timer_defs deleteProject_def Let_def)

lemma startBreak_runningBreak: "runningBreak d (startBreak d e st)"
  by (simp add: runningBreak_def startBreak_def Let_def)

lemma tick_runningBreak:
  "runningBreak d st \<Longrightarrow> pomodoroRemaining (tick e st) > 0 \<Longrightarrow> runningBreak d (tick e st)"
  by (auto simp: runningBreak_def tick_def Let_def saveRecoveryState_def pomodoroFinished_def
      breakFinished_def saveSessions_def split: option.splits ticker.splits if_splits)

text \<open>
  C10. While a break of \<open>d\<close> seconds is the active timer, \<open>stopTimer\<close> leaves
  pomodoro mode on and the pomodoro duration at \<open>d\<close>; for \<open>d > 0\<close> the next
  \<open>startTimer\<close> therefore counts down from \<open>d\<close>. The 25 minutes come back with the
  reset that follows \<open>breakFinished\<close>.
\<close>

theorem stopped_break_keeps_break_duration:
  assumes "runningBreak d st"
  shows "pomodoroMode (stopTimer save e st)
       \<and> pomodoroDuration (stopTimer save e st) = d
       \<and> activeTimer (stopTimer save e st) = None
       \<and> (0 < d \<longrightarrow> pomodoroRemaining (startTimer p e' (stopTimer save e st)) = d
                    \<and> timerInterval (startTimer p e' (stopTimer save e st)) = Some TimerTick)
       \<and> pomodoroDuration (breakFinishedReset (breakFinished e st)) = 25 * 60"
  using assms
  by (simp add: runningBreak_def stopTimer_def startTimer_def truthy_def saveSessions_def
      saveRecoveryState_def breakFinishedReset_def breakFinished_def Let_def)

text \<open>
  Witness for C10: the break of 300 seconds is stopped at 10:01:01 and a timer on
  \<open>proj1\<close> is started at 10:01:10; it counts down from 300, not from 1500.
\<close>

theorem stopped_break_keeps_break_duration_witness:
  "runningBreak 300 tickedBreak
   \<and> pomodoroDuration (stopTimer True (envAt 1736935261000) tickedBreak) = 300
   \<and> pomodoroRemaining (startTimer ''proj1'' (envAt 1736935270000)
        (stopTimer True (envAt 1736935261000) tickedBreak)) = 300"
  using stopped_break_keeps_break_duration[of 300 tickedBreak True "envAt 1736935261000"
      "''proj1''" "envAt 1736935270000"]
  by (simp add: runningBreak_def example_defs timer_defs Let_def)

subsection \<open>Statistics totals\<close>





text \<open>
  Across a daylight-saving change the two offsets differ and \<open>getWeekAgo\<close> can land
  a day off: in New York at 19:30 local time on 2025-11-02 (00:30 UTC on 2025-11-03,
  day 20395) it returns day 20387, eight days before.
\<close>

lemma getWeekAgo_across_offset_change:
  "getToday 1762129800000 = 20395 \<and> getWeekAgo newYorkAutumn2025 1762129800000 = 20387"
  by (simp add: getToday_def getWeekAgo_def newYorkAutumn2025_def Let_def)




subsection \<open>Loading one day\<close>

text \<open>
  C5, as the code has it. \<open>loadFromAWS\<close> returns a document only when the API address
  is configured and the response has a status from 200 to 299 and a body that parses.
  For a 404 (no document for the date), for any other status outside 200 to 299, for
  a rejected request and for a body that does not parse it returns \<open>null\<close> alike, so
  the returned value does not tell a missing document from a failure.
\<close>

theorem loadFromAWS_result:
  "(loadFromAWS url r = Some d \<longleftrightarrow>
      url \<noteq> [] \<and> (\<exists>status. 200 \<le> status \<and> status \<le> 299 \<and> r = Response status (Some d)))
   \<and> loadFromAWS url (Response 404 body) = None
   \<and> loadFromAWS url NetworkError = None
   \<and> (\<not> (200 \<le> status \<and> status \<le> 299) \<longrightarrow> loadFromAWS url (Response status body) = None)
   \<and> loadFromAWS url (Response status None) = None"
  by (cases r) (auto simp: loadFromAWS_def)

text \<open>Witness for C5: a 200 response is returned, a 503 response is not.\<close>

theorem loadFromAWS_result_witness:
  "loadFromAWS ''https://api.example.com/prod'' (Response 200 (Some remoteDoc)) = Some remoteDoc
   \<and> \<not> (200 \<le> (503::int) \<and> (503::int) \<le> 299)
   \<and> loadFromAWS ''https://api.example.com/prod'' (Response 503 (Some remoteDoc)) = None"
  using loadFromAWS_result[of "''https://api.example.com/prod''" "Response 200 (Some remoteDoc)"
      remoteDoc "Some remoteDoc" 503]
  by simp

text \<open>
  Counterexample to C5 as stated: the value returned for a 404 is the value returned
  for a 500 and for a rejected request.
\<close>

theorem loadFromAWS_not_found_same_as_failure:
  "loadFromAWS ''https://api.example.com/prod'' (Response 404 None)
     = loadFromAWS ''https://api.example.com/prod'' (Response 500 None)
   \<and> loadFromAWS ''https://api.example.com/prod'' (Response 404 None)
     = loadFromAWS ''https://api.example.com/prod'' NetworkError"
  by (simp add: loadFromAWS_def)

subsection \<open>Merge\<close>

lemma mergeFromAWS_steps:
  "mergeFromAWS (Some doc) st = mergeSessionsStep doc (mergeProjectsStep doc st)"
  by (simp only: mergeFromAWS_def mergeProjectsStep_def mergeSessionsStep_def Let_def option.case)

lemma findIndex_Some:
  "findIndex P xs = Some i \<Longrightarrow> i < length xs \<and> P (xs ! i)"
  by (induction xs arbitrary: i) (auto split: if_splits)

lemma mapSet_findIndex:
  "mapSet r ps =
     (case findIndex (\<lambda>p. p_id p = p_id r) ps of
        None \<Rightarrow> ps @ [r]
      | Some i \<Rightarrow> ps[i := r])"
  by (induction ps) (auto split: option.splits)

lemma mergeProject_eq: "mergeProject r (ps, c) = (mapSet r ps, c \<or> mapSet r ps \<noteq> ps)"
proof (cases "findIndex (\<lambda>p. p_id p = p_id r) ps")
  case None
  then show ?thesis by (simp add: mergeProject_def mapSet_findIndex)
next
  case (Some i)
  from findIndex_Some[OF Some] have i: "i < length ps" and k: "p_id (ps ! i) = p_id r"
    by simp_all
  show ?thesis
  proof (cases "p_name (ps ! i) \<noteq> p_name r \<or> p_color (ps ! i) \<noteq> p_color r")
    case True
    then have "ps ! i \<noteq> r" by auto
    then have "ps[i := r] \<noteq> ps" using i by (simp add: list_update_same_conv)
    with True Some show ?thesis by (simp add: mergeProject_def mapSet_findIndex Let_def)
  next
    case False
    with k have "ps ! i = r" by simp
    then have "ps[i := r] = ps" by (metis list_update_id)
    with False Some show ?thesis by (simp add: mergeProject_def mapSet_findIndex Let_def)
  qed
qed

lemma fold_mergeProject_fst:
  "fst (fold mergeProject rs (ps, c)) = fold mapSet rs ps"
  by (induction rs arbitrary: ps c) (simp_all add: mergeProject_eq)

lemma fold_mergeProject_unchanged:
  "\<not> snd (fold mergeProject rs (ps, c)) \<Longrightarrow> fold mapSet rs ps = ps"
proof (induction rs arbitrary: ps c)
  case Nil
  then show ?case by simp
next
  case (Cons r rs)
  from Cons.prems have s: "\<not> snd (fold mergeProject rs (mapSet r ps, c \<or> mapSet r ps \<noteq> ps))"
    by (simp add: mergeProject_eq)
  have k: "snd (fold mergeProject rs (qs, True))" for qs
    by (induction rs arbitrary: qs) (simp_all add: mergeProject_eq)
  from s k have "mapSet r ps = ps" by (cases "mapSet r ps = ps") auto
  with Cons.IH[OF s] show ?case by simp
qed

lemma mapSet_ids: "p_id ` set (mapSet r ps) = insert (p_id r) (p_id ` set ps)"
  by (induction ps) auto

lemma fold_mapSet_ids: "p_id ` set (fold mapSet rs ps) = p_id ` set rs \<union> p_id ` set ps"
  by (induction rs arbitrary: ps) (auto simp: mapSet_ids)

lemma mapSet_absorb: "p_id r = p_id r' \<Longrightarrow> mapSet r (mapSet r' ps) = mapSet r ps"
  by (induction ps) auto

lemma mapSet_commute:
  "p_id r \<noteq> p_id r' \<Longrightarrow> p_id r' \<in> p_id ` set ps \<Longrightarrow>
   mapSet r (mapSet r' ps) = mapSet r' (mapSet r ps)"
  by (induction ps) auto

lemma mapSet_past_fold:
  "p_id ` set rs \<subseteq> p_id ` set ps \<Longrightarrow>
   mapSet r (fold mapSet rs (mapSet r ps)) = mapSet r (fold mapSet rs ps)"
proof (induction rs arbitrary: ps)
  case Nil
  then show ?case by (simp add: mapSet_absorb)
next
  case (Cons q rs)
  have sub: "p_id ` set rs \<subseteq> p_id ` set (mapSet q ps)"
    using Cons.prems by (auto simp: mapSet_ids)
  show ?case
  proof (cases "p_id q = p_id r")
    case True
    then show ?thesis by (simp add: mapSet_absorb)
  next
    case False
    have "p_id q \<in> p_id ` set ps" using Cons.prems by auto
    then have "mapSet q (mapSet r ps) = mapSet r (mapSet q ps)"
      using False mapSet_commute[of r q ps] by simp
    then show ?thesis using Cons.IH[OF sub] by simp
  qed
qed

lemma fold_mapSet_idem: "fold mapSet rs (fold mapSet rs ps) = fold mapSet rs ps"
proof (induction rs rule: rev_induct)
  case Nil
  then show ?case by simp
next
  case (snoc r rs)
  have "p_id ` set rs \<subseteq> p_id ` set (fold mapSet rs ps)"
    by (simp add: fold_mapSet_ids)
  from mapSet_past_fold[OF this, of r] snoc show ?case by simp
qed

lemma mergeProjectsStep_idem:
  "mergeProjectsStep doc (mergeProjectsStep doc st) = mergeProjectsStep doc st"
proof (cases "d_projects doc")
  case None
  then show ?thesis by (simp add: mergeProjectsStep_def)
next
  case (Some rs)
  show ?thesis
  proof (cases "snd (fold mergeProject rs (projects st, False))")
    case True
    then show ?thesis using Some
      by (simp add: mergeProjectsStep_def Let_def saveProjects_def fold_mergeProject_fst
          fold_mapSet_idem)
  next
    case False
    then have "fold mapSet rs (projects st) = projects st"
      by (rule fold_mergeProject_unchanged)
    then show ?thesis using Some False
      by (simp add: mergeProjectsStep_def Let_def fold_mergeProject_fst)
  qed
qed

lemma mergeSession_eq:
  "mergeSession r (ss, a) =
     (if s_id r \<in> s_id ` set ss then (ss, a) else (ss @ [r], a + 1))"
proof (cases "s_id r \<in> s_id ` set ss")
  case True
  then have "find (\<lambda>s. s_id s = s_id r) ss \<noteq> None"
    by (auto simp: find_None_iff)
  then obtain x where "find (\<lambda>s. s_id s = s_id r) ss = Some x" by blast
  with True show ?thesis by (simp add: mergeSession_def)
next
  case False
  then have "find (\<lambda>s. s_id s = s_id r) ss = None"
    using image_iff by (fastforce simp: find_None_iff)
  with False show ?thesis by (simp add: mergeSession_def)
qed

lemma fold_mergeSession_ids:
  "s_id ` set (fst (fold mergeSession rs (ss, a))) = s_id ` set rs \<union> s_id ` set ss"
proof (induction rs arbitrary: ss a)
  case Nil
  then show ?case by simp
next
  case (Cons r rs)
  show ?case
  proof (cases "s_id r \<in> s_id ` set ss")
    case True
    then show ?thesis using Cons.IH[of ss a] by (auto simp: mergeSession_eq)
  next
    case False
    then show ?thesis using Cons.IH[of "ss @ [r]" "a + 1"] by (auto simp: mergeSession_eq)
  qed
qed

lemma fold_mergeSession_known:
  "s_id ` set rs \<subseteq> s_id ` set ss \<Longrightarrow> fold mergeSession rs (ss, a) = (ss, a)"
  by (induction rs arbitrary: ss a) (auto simp: mergeSession_eq)

lemma mergeSessionsStep_idem:
  "mergeSessionsStep doc (mergeSessionsStep doc st) = mergeSessionsStep doc st"
proof (cases "d_sessions doc")
  case None
  then show ?thesis by (simp add: mergeSessionsStep_def)
next
  case (Some rs)
  have "s_id ` set rs \<subseteq> s_id ` set (fst (fold mergeSession rs (sessions st, 0)))"
    by (simp add: fold_mergeSession_ids)
  then have "fold mergeSession rs (fst (fold mergeSession rs (sessions st, 0)), 0)
      = (fst (fold mergeSession rs (sessions st, 0)), 0)"
    by (rule fold_mergeSession_known)
  then show ?thesis using Some
    by (simp add: mergeSessionsStep_def Let_def saveSessions_def)
qed


lemma merge_steps_commute:
  "mergeProjectsStep doc (mergeSessionsStep doc st) = mergeSessionsStep doc (mergeProjectsStep doc st)"
proof (cases "d_projects doc")
  case None
  then show ?thesis by (simp add: mergeProjectsStep_def)
next
  case ps: (Some rps)
  show ?thesis
  proof (cases "d_sessions doc")
    case None
    then show ?thesis by (simp add: mergeSessionsStep_def)
  next
    case (Some rss)
    with ps show ?thesis
      by (simp add: mergeProjectsStep_def mergeSessionsStep_def Let_def saveProjects_def
          saveSessions_def)
  qed
qed


text \<open>
  C4. Merging the same result of \<open>loadFromAWS\<close> a second time changes nothing: the
  whole state after two merges, project list, session log and both stored copies
  included, is the state after one.
\<close>

theorem mergeFromAWS_idempotent:
  "mergeFromAWS r (mergeFromAWS r st) = mergeFromAWS r st"
proof (cases r)
  case None
  then show ?thesis by (simp add: mergeFromAWS_def)
next
  case (Some doc)
  have "mergeSessionsStep doc (mergeProjectsStep doc (mergeSessionsStep doc (mergeProjectsStep doc st)))
      = mergeSessionsStep doc (mergeSessionsStep doc (mergeProjectsStep doc (mergeProjectsStep doc st)))"
    by (simp only: merge_steps_commute)
  also have "\<dots> = mergeSessionsStep doc (mergeProjectsStep doc st)"
    by (simp only: mergeProjectsStep_idem mergeSessionsStep_idem)
  finally show ?thesis using Some by (simp only: mergeFromAWS_steps)
qed

text \<open>
  Witness for C4: the remote document renames \<open>proj1\<close>, adds \<open>proj4\<close> and one
  session; after the second merge there are still four projects and one session.
\<close>

theorem mergeFromAWS_idempotent_witness:
  "mergeFromAWS (Some remoteDoc) (mergeFromAWS (Some remoteDoc) initialState)
     = mergeFromAWS (Some remoteDoc) initialState
   \<and> map p_id (projects (mergeFromAWS (Some remoteDoc) initialState))
       = [''proj1'', ''proj2'', ''proj3'', ''proj4'']
   \<and> map p_name (projects (mergeFromAWS (Some remoteDoc) initialState))
       = [''Client Work'', ''Side Project'', ''Learning'', ''Reading'']
   \<and> map s_id (sessions (mergeFromAWS (Some remoteDoc) initialState)) = [''a1b2c3d4e'']"
  using mergeFromAWS_idempotent[of "Some remoteDoc" initialState]
  by (simp add: mergeFromAWS_def mergeProject_def mergeSession_def remoteDoc_def
      boundarySession_def initialState_def DEFAULT_PROJECTS_def saveProjects_def
      saveSessions_def Let_def)

subsection \<open>Range aggregation\<close>

text \<open>
  In general: a file whose load or parse fails adds nothing, the returned sessions are
  those of the loadable files of the range in listing order, and \<open>filesLoaded\<close> is
  the number of files of the range, loadable or not.
\<close>

lemma loadFile_failed: "o_body f = None \<Longrightarrow> loadFile f acc = acc"
  by (cases acc) (simp add: loadFile_def)

lemma fold_loadFile_sessions:
  "fst (fold loadFile fs (ss, ps)) =
     ss @ concat (map (\<lambda>f. case o_body f of
                              None \<Rightarrow> []
                            | Some data \<Rightarrow> (case d_sessions data of None \<Rightarrow> [] | Some xs \<Rightarrow> xs)) fs)"
  by (induction fs arbitrary: ss ps) (auto simp: loadFile_def split: option.splits)

lemma handleGetDateRange_filesLoaded:
  "filesLoaded (handleGetDateRange from to contents) =
     int (length (filter (\<lambda>f. case o_date f of
                                  None \<Rightarrow> False
                                | Some d \<Rightarrow> from \<le> d \<and> d \<le> to) contents))"
  by (simp add: handleGetDateRange_def Let_def)

text \<open>
  C6, at the failing input. Of five stored documents in the range the third does not
  parse. It is skipped and the sessions and projects of the other four are returned,
  but \<open>filesLoaded\<close> is the number of files in the range, 5, not the number loaded, 4.
\<close>

theorem handleGetDateRange_counts_failed_file:
  "filesLoaded (handleGetDateRange 20099 20103 fiveFiles) = 5
   \<and> map s_date (rr_sessions (handleGetDateRange 20099 20103 fiveFiles))
       = [20099, 20100, 20102, 20103]
   \<and> map p_id (rr_projects (handleGetDateRange 20099 20103 fiveFiles)) = [''proj1'']
   \<and> length (filter (\<lambda>f. o_body f \<noteq> None) fiveFiles) = 4"
  by (simp add: handleGetDateRange_def fiveFiles_def docOf_def loadFile_def Let_def)

end
